theory Spec2Isabelle
  imports Complex_Main
begin

section \<open>The local-minimum finder of NCL_sat_1.py\<close>

text \<open>
  The script \<^verbatim>\<open>Plots/Satellites/NCL_sat_1.py\<close> labels the lows of a sea-level-pressure
  field. Its function \<^verbatim>\<open>findLocalMinima\<close> reads the global data array \<^verbatim>\<open>U\<close> (an
  xarray DataArray with the coordinates \<^verbatim>\<open>lat\<close> and \<^verbatim>\<open>lon\<close>), screens the grid
  for cells where both forward differences are nearly zero and keeps those that lie below
  their two neighbours \<^verbatim>\<open>step\<close> rows away.

  Conventions of the model:
  \<^item> a float64 is a \<^typ>\<open>real\<close>: arithmetic is exact, without rounding or overflow.
    The quotient of a division by zero is not finite in numpy (\<^verbatim>\<open>inf\<close> or \<^verbatim>\<open>nan\<close>,
    with a warning and no exception); it is the value \<open>None\<close> of \<^typ>\<open>real option\<close>, and
    every comparison \<^verbatim>\<open>abs(q) <= bound\<close> with it is false;
  \<^item> an index is looked up the way Python and numpy do: a negative index counts from the
    end, anything else out of range raises \<^verbatim>\<open>IndexError\<close>;
  \<^item> \<^verbatim>\<open>print\<close> appends to the standard output, which is part of the state;
  \<^item> the two local constants \<^verbatim>\<open>bound = 0.02\<close> and \<^verbatim>\<open>step = 2\<close> are parameters of
    \<open>findLocalMinima_with\<close>; \<open>findLocalMinima\<close> fixes them as the source does.
\<close>

subsection \<open>Data\<close>

datatype error = IndexError

record dataset =
  data :: "real list list"
  lat :: "real list"
  lon :: "real list"

record world =
  U :: dataset
  stdout :: "(int \<times> int) list"

text \<open>
  A DataArray over the dimensions (lat, lon) holds one value for each pair of coordinates:
  \<open>H\<close> rows of \<open>W\<close> values, where \<open>H\<close> and \<open>W\<close> are the lengths of the coordinate
  arrays. The functions below are read on such grids, with at least one row and one column.
\<close>

definition wf_grid :: "dataset \<Rightarrow> bool" where
  "wf_grid D \<longleftrightarrow>
     0 < length (lat D) \<and> 0 < length (lon D) \<and> length (data D) = length (lat D) \<and>
     list_all (\<lambda>row. length row = length (lon D)) (data D)"

subsection \<open>Indexing and arithmetic of numpy\<close>

definition getitem :: "'a list \<Rightarrow> int \<Rightarrow> 'a option" where
  "getitem xs i =
     (if 0 \<le> i \<and> i < int (length xs) then Some (xs ! nat i)
      else if - int (length xs) \<le> i \<and> i < 0 then Some (xs ! nat (int (length xs) + i))
      else None)"

definition getitem2 :: "'a list list \<Rightarrow> int \<Rightarrow> int \<Rightarrow> 'a option" where
  "getitem2 arr i j = (case getitem arr i of None \<Rightarrow> None | Some row \<Rightarrow> getitem row j)"

definition diff1 :: "real list \<Rightarrow> real list" where
  "diff1 xs = map (\<lambda>(a, b). b - a) (zip xs (tl xs))"

definition np_diff :: "real list list \<Rightarrow> real list list" where
  "np_diff arr = map diff1 arr"

definition np_divide :: "real \<Rightarrow> real \<Rightarrow> real option" where
  "np_divide a b = (if b = 0 then None else Some (a / b))"

definition abs_le :: "real option \<Rightarrow> real \<Rightarrow> bool" where
  "abs_le q bound = (case q of None \<Rightarrow> False | Some d \<Rightarrow> \<bar>d\<bar> \<le> bound)"

subsection \<open>The helpers of the script\<close>

definition makeCoordArr :: "dataset \<Rightarrow> (real \<times> real) list list" where
  "makeCoordArr D = map (\<lambda>x. map (\<lambda>y. (x, y)) (lon D)) (lat D)"

definition sliceTupleArray :: "(real \<times> real) list list \<Rightarrow> nat \<Rightarrow> real list list" where
  "sliceTupleArray tupleArray index =
     map (\<lambda>x. map (\<lambda>t. if index = 0 then fst t else snd t) x) tupleArray"

definition latdata_of :: "dataset \<Rightarrow> real list list" where
  "latdata_of D = sliceTupleArray (makeCoordArr D) 0"

definition londata_of :: "dataset \<Rightarrow> real list list" where
  "londata_of D = sliceTupleArray (makeCoordArr D) 1"

text \<open>
  \<^verbatim>\<open>dpdlon = np.diff(U.data)/np.diff(londata)\<close>: both differences are taken along the
  last axis and, on a grid, have \<open>H\<close> rows of \<open>W - 1\<close> values, which the quotient
  pairs cell by cell.
\<close>

definition dpdlon_of :: "dataset \<Rightarrow> real option list list" where
  "dpdlon_of D =
     map (\<lambda>(us, ls). map (\<lambda>(u, l). np_divide u l) (zip us ls))
       (zip (np_diff (data D)) (np_diff (londata_of D)))"

subsection \<open>Stage 1: the cells where the derivative along the longitude is zero\<close>

text \<open>
  The loops \<^verbatim>\<open>for x in range(len(dpdlon))\<close> and \<^verbatim>\<open>for y in range(x)\<close>. Nothing
  catches the \<^verbatim>\<open>IndexError\<close> of \<^verbatim>\<open>dpdlon[x][y]\<close> here: it ends the call.
\<close>

fun scan_cols ::
  "real option list list \<Rightarrow> real \<Rightarrow> nat \<Rightarrow> nat list \<Rightarrow> (nat \<times> nat) list \<Rightarrow>
   error + (nat \<times> nat) list" where
  "scan_cols dpdlon bound x [] lonZeros = Inr lonZeros"
| "scan_cols dpdlon bound x (y # ys) lonZeros =
     (case getitem2 dpdlon (int x) (int y) of
        None \<Rightarrow> Inl IndexError
      | Some d \<Rightarrow>
          scan_cols dpdlon bound x ys
            (if abs_le d bound then lonZeros @ [(x, y)] else lonZeros))"

fun scan_rows ::
  "real option list list \<Rightarrow> real \<Rightarrow> nat list \<Rightarrow> (nat \<times> nat) list \<Rightarrow>
   error + (nat \<times> nat) list" where
  "scan_rows dpdlon bound [] lonZeros = Inr lonZeros"
| "scan_rows dpdlon bound (x # xs) lonZeros =
     (case scan_cols dpdlon bound x [0..<x] lonZeros of
        Inl e \<Rightarrow> Inl e
      | Inr lonZeros' \<Rightarrow> scan_rows dpdlon bound xs lonZeros')"

definition find_lonZeros :: "real option list list \<Rightarrow> real \<Rightarrow> error + (nat \<times> nat) list" where
  "find_lonZeros dpdlon bound = scan_rows dpdlon bound [0..<length dpdlon] []"

subsection \<open>Stage 2: the derivative along the latitude\<close>

text \<open>
  The body of the \<^verbatim>\<open>try\<close>: \<open>None\<close> when one of the lookups raises, otherwise the
  quotient.
\<close>

definition dpdlat_at ::
  "real list list \<Rightarrow> real list list \<Rightarrow> nat \<Rightarrow> nat \<Rightarrow> real option option" where
  "dpdlat_at Udata latdata x y =
     (case getitem2 Udata (int x + 1) (int y) of None \<Rightarrow> None | Some u1 \<Rightarrow>
      case getitem2 Udata (int x) (int y) of None \<Rightarrow> None | Some u0 \<Rightarrow>
      case getitem2 latdata (int x + 1) (int y) of None \<Rightarrow> None | Some l1 \<Rightarrow>
      case getitem2 latdata (int x) (int y) of None \<Rightarrow> None | Some l0 \<Rightarrow>
        Some (np_divide (u1 - u0) (l1 - l0)))"

text \<open>
  The loop over \<^verbatim>\<open>lonZeros\<close>: the first component is \<^verbatim>\<open>arraylocations\<close>, the second
  what the handler printed, \<^verbatim>\<open>print((x+1, y))\<close>, before it went on to the next
  candidate. (The list \<^verbatim>\<open>coords\<close> of the source is filled alongside and never read.)
\<close>

fun find_latZeros ::
  "real list list \<Rightarrow> real list list \<Rightarrow> real \<Rightarrow> (nat \<times> nat) list \<Rightarrow>
   (nat \<times> nat) list \<times> (int \<times> int) list" where
  "find_latZeros Udata latdata bound [] = ([], [])"
| "find_latZeros Udata latdata bound ((x, y) # coords) =
     (let (arraylocations, printed) = find_latZeros Udata latdata bound coords in
      case dpdlat_at Udata latdata x y of
        None \<Rightarrow> (arraylocations, (int x + 1, int y) # printed)
      | Some dpdlat \<Rightarrow>
          (if abs_le dpdlat bound then (x, y) # arraylocations else arraylocations, printed))"

subsection \<open>Stage 3: lower than the rows above and below\<close>

text \<open>
  The condition of the \<^verbatim>\<open>if\<close>, in Python's order of evaluation: the second comparison
  is only evaluated when the first holds. \<open>None\<close> when a lookup raises.
\<close>

definition is_lower :: "real list list \<Rightarrow> nat \<Rightarrow> nat \<Rightarrow> nat \<Rightarrow> bool option" where
  "is_lower Udata step x y =
     (case getitem2 Udata (int x + int step) (int y) of None \<Rightarrow> None | Some up \<Rightarrow>
      case getitem2 Udata (int x) (int y) of None \<Rightarrow> None | Some c \<Rightarrow>
        if up > c then
          (case getitem2 Udata (int x - int step) (int y) of None \<Rightarrow> None | Some dn \<Rightarrow>
           case getitem2 Udata (int x) (int y) of None \<Rightarrow> None | Some c' \<Rightarrow> Some (dn > c'))
        else Some False)"

fun find_minima :: "real list list \<Rightarrow> nat \<Rightarrow> (nat \<times> nat) list \<Rightarrow> (int \<times> int) list" where
  "find_minima Udata step [] = []"
| "find_minima Udata step ((x, y) # coords) =
     (case is_lower Udata step x y of
        Some True \<Rightarrow> (- int x, int y - 180) # find_minima Udata step coords
      | _ \<Rightarrow> find_minima Udata step coords)"

subsection \<open>The function\<close>

text \<open>
  The three stages in sequence, on the state: the data set \<open>U\<close> is read and what stage 2
  prints is appended to the output. When stage 1 raises, the call ends with the error and
  the state as it was.
\<close>

definition findLocalMinima_with ::
  "real \<Rightarrow> nat \<Rightarrow> world \<Rightarrow> (error + (int \<times> int) list) \<times> world" where
  "findLocalMinima_with bound step w =
     (case find_lonZeros (dpdlon_of (U w)) bound of
        Inl e \<Rightarrow> (Inl e, w)
      | Inr lonZeros \<Rightarrow>
          (let (arraylocations, printed) =
                 find_latZeros (data (U w)) (latdata_of (U w)) bound lonZeros
           in (Inr (find_minima (data (U w)) step arraylocations),
               w\<lparr>stdout := stdout w @ printed\<rparr>)))"

definition findLocalMinima :: "world \<Rightarrow> (error + (int \<times> int) list) \<times> world" where
  "findLocalMinima w = findLocalMinima_with (2 / 100) 2 w"

subsection \<open>The conditions the stages decide, on the grid\<close>

text \<open>
  The forward difference along the longitude at the cell \<open>(i, j)\<close> is within the bound.
  A divisor of zero makes the quotient of the source non-finite, and the test false.
\<close>

definition lon_stationary :: "dataset \<Rightarrow> real \<Rightarrow> nat \<Rightarrow> nat \<Rightarrow> bool" where
  "lon_stationary D bound i j \<longleftrightarrow>
     lon D ! Suc j \<noteq> lon D ! j \<and>
     \<bar>(data D ! i ! Suc j - data D ! i ! j) / (lon D ! Suc j - lon D ! j)\<bar> \<le> bound"

text \<open>
  The forward difference along the latitude: row \<open>i + 1\<close> exists, and the quotient, with
  the latitudes read from the two-dimensional \<^verbatim>\<open>latdata\<close>, is within the bound.
\<close>

definition lat_stationary :: "dataset \<Rightarrow> real \<Rightarrow> nat \<Rightarrow> nat \<Rightarrow> bool" where
  "lat_stationary D bound i j \<longleftrightarrow>
     Suc i < length (lat D) \<and>
     latdata_of D ! Suc i ! j \<noteq> latdata_of D ! i ! j \<and>
     \<bar>(data D ! Suc i ! j - data D ! i ! j) /
        (latdata_of D ! Suc i ! j - latdata_of D ! i ! j)\<bar> \<le> bound"

text \<open>
  The cells \<open>(x, y)\<close> with \<open>x < H\<close>, \<open>y < x\<close> and \<open>P x y\<close>, row by row: the order in
  which \<^verbatim>\<open>for x in range(H): for y in range(x)\<close> meets them.
\<close>

definition triangle_scan :: "nat \<Rightarrow> (nat \<Rightarrow> nat \<Rightarrow> bool) \<Rightarrow> (nat \<times> nat) list" where
  "triangle_scan H P = concat (map (\<lambda>x. map (Pair x) (filter (P x) [0..<x])) [0..<H])"

definition lon_zero :: "real option list list \<Rightarrow> real \<Rightarrow> nat \<Rightarrow> nat \<Rightarrow> bool" where
  "lon_zero dpdlon bound x y \<longleftrightarrow>
     x < length dpdlon \<and> y < length (dpdlon ! x) \<and> abs_le (dpdlon ! x ! y) bound"

text \<open>Row-major order of grid indices, strict.\<close>

definition row_major :: "nat \<times> nat \<Rightarrow> nat \<times> nat \<Rightarrow> bool" where
  "row_major p q \<longleftrightarrow> fst p < fst q \<or> (fst p = fst q \<and> snd p < snd q)"

text \<open>The output coordinate of a grid cell, \<^verbatim>\<open>(-x, y-180)\<close>.\<close>

definition to_label :: "nat \<times> nat \<Rightarrow> int \<times> int" where
  "to_label p = (- int (fst p), int (snd p) - 180)"

text \<open>
  A field that increases strictly along both axes: within every row, and from every row
  to each later one.
\<close>

definition increasing_along_both :: "real list list \<Rightarrow> bool" where
  "increasing_along_both F \<longleftrightarrow> list_all (sorted_wrt (<)) F \<and> sorted_wrt (list_all2 (<)) F"

definition constant_field :: "real \<Rightarrow> real list list \<Rightarrow> bool" where
  "constant_field c F \<longleftrightarrow> list_all (list_all (\<lambda>v. v = c)) F"

subsection \<open>Example grids\<close>

text \<open>The state in which a data set has been loaded and nothing printed yet.\<close>

definition quiet :: "dataset \<Rightarrow> world" where
  "quiet D = \<lparr>U = D, stdout = []\<rparr>"

text \<open>A field rising by 0.01 per cell in both directions, on unit-spaced coordinates.\<close>

definition slope :: dataset where
  "slope =
     \<lparr>data = map (\<lambda>i. map (\<lambda>j. (real i + real j) / 100) [0..<5]) [0..<5],
      lat = [0, 1, 2, 3, 4], lon = [0, 1, 2, 3, 4]\<rparr>"

text \<open>
  The paraboloid \<open>(i - 2)\<^sup>2 + (j - 2)\<^sup>2\<close> on a 5 by 5 grid, over given coordinates.
\<close>

definition paraboloid :: "real list \<Rightarrow> real list \<Rightarrow> dataset" where
  "paraboloid la lo =
     \<lparr>data = [[8, 5, 4, 5, 8], [5, 2, 1, 2, 5], [4, 1, 0, 1, 4], [5, 2, 1, 2, 5],
              [8, 5, 4, 5, 8]],
      lat = la, lon = lo\<rparr>"

definition unit_coords :: "real list" where
  "unit_coords = [0, 1, 2, 3, 4]"

definition coarse_coords :: "real list" where
  "coarse_coords = [0, 5 / 2, 5, 15 / 2, 10]"



text \<open>Constant fields: three rows of two columns, two rows of two, three of three.\<close>

definition flat_tall :: dataset where
  "flat_tall = \<lparr>data = [[1, 1], [1, 1], [1, 1]], lat = [0, 1, 2], lon = [0, 1]\<rparr>"

definition flat_square :: dataset where
  "flat_square = \<lparr>data = [[1, 1], [1, 1]], lat = [0, 1], lon = [0, 1]\<rparr>"

definition flat_three :: dataset where
  "flat_three =
     \<lparr>data = [[7, 7, 7], [7, 7, 7], [7, 7, 7]], lat = [0, 1, 2], lon = [0, 1, 2]\<rparr>"

text \<open>A valley along row 1 of a grid of four rows, for the lookups of stage 3.\<close>

definition valley :: dataset where
  "valley =
     \<lparr>data = [[3, 3, 3, 3], [1, 1, 1, 1], [1, 1, 1, 1], [2, 2, 2, 2]],
      lat = [0, 1, 2, 3], lon = [0, 1, 2, 3]\<rparr>"

text \<open>
  Three rows, the lowest in the middle, a hundred units of latitude apart: row \<open>1 + 2\<close>
  is not a row of this grid.
\<close>

definition short_valley :: dataset where
  "short_valley =
     \<lparr>data = [[3, 3, 3], [1, 1, 1], [2, 2, 2]], lat = [0, 100, 200], lon = [0, 1, 2]\<rparr>"

text \<open>Four rows that never fall from top to bottom: row 0 is the lowest.\<close>

definition ramp :: dataset where
  "ramp =
     \<lparr>data = [[0, 0, 0, 0], [1, 1, 1, 1], [1, 1, 1, 1], [2, 2, 2, 2]],
      lat = [0, 1, 2, 3], lon = [0, 1, 2, 3]\<rparr>"

section \<open>Properties\<close>

subsection \<open>Lookups\<close>

lemma getitem_nat:
  "getitem xs (int i) = (if i < length xs then Some (xs ! i) else None)"
  by (simp add: getitem_def)

lemma getitem2_nat:
  "getitem2 arr (int i) (int j) =
     (if i < length arr \<and> j < length (arr ! i) then Some (arr ! i ! j) else None)"
  by (simp add: getitem2_def getitem_nat)

subsection \<open>The two loops of stage 1\<close>

text \<open>
  The scan returns when every lookup is in range, with the cells that pass in the order
  they are met, and raises as soon as one lookup is not.
\<close>

lemma scan_cols_ok:
  "x < length dpdlon \<Longrightarrow> \<forall>y\<in>set ys. y < length (dpdlon ! x) \<Longrightarrow>
   scan_cols dpdlon bound x ys acc =
     Inr (acc @ map (Pair x) (filter (lon_zero dpdlon bound x) ys))"
  by (induction ys arbitrary: acc) (simp_all add: getitem2_nat lon_zero_def)

lemma scan_cols_raises:
  "\<exists>y\<in>set ys. \<not> (x < length dpdlon \<and> y < length (dpdlon ! x)) \<Longrightarrow>
   scan_cols dpdlon bound x ys acc = Inl IndexError"
proof (induction ys arbitrary: acc)
  case Nil
  then show ?case by simp
next
  case (Cons y ys)
  show ?case
  proof (cases "x < length dpdlon \<and> y < length (dpdlon ! x)")
    case True
    with Cons.prems have "\<exists>y\<in>set ys. \<not> (x < length dpdlon \<and> y < length (dpdlon ! x))"
      by auto
    with True Cons.IH show ?thesis by (simp add: getitem2_nat)
  next
    case False
    then show ?thesis by (auto simp add: getitem2_nat)
  qed
qed

lemma scan_rows_ok:
  "\<forall>x\<in>set xs. x < length dpdlon \<and> x \<le> length (dpdlon ! x) \<Longrightarrow>
   scan_rows dpdlon bound xs acc =
     Inr (acc @ concat (map (\<lambda>x. map (Pair x) (filter (lon_zero dpdlon bound x) [0..<x])) xs))"
proof (induction xs arbitrary: acc)
  case Nil
  then show ?case by simp
next
  case (Cons x xs)
  then have "scan_cols dpdlon bound x [0..<x] acc =
      Inr (acc @ map (Pair x) (filter (lon_zero dpdlon bound x) [0..<x]))"
    by (intro scan_cols_ok) auto
  with Cons show ?case by simp
qed

lemma error_eq: "(e::error) = IndexError"
  by (cases e)

lemma scan_rows_raises:
  "\<exists>x\<in>set xs. \<not> (x < length dpdlon \<and> x \<le> length (dpdlon ! x)) \<and> 0 < x \<Longrightarrow>
   scan_rows dpdlon bound xs acc = Inl IndexError"
proof (induction xs arbitrary: acc)
  case Nil
  then show ?case by simp
next
  case (Cons x xs)
  show ?case
  proof (cases "\<not> (x < length dpdlon \<and> x \<le> length (dpdlon ! x)) \<and> 0 < x")
    case True
    then have "\<exists>y\<in>set [0..<x]. \<not> (x < length dpdlon \<and> y < length (dpdlon ! x))"
      by (cases "x < length dpdlon") (auto intro: bexI [of _ "x - 1"])
    then have "scan_cols dpdlon bound x [0..<x] acc = Inl IndexError"
      by (rule scan_cols_raises)
    then show ?thesis by simp
  next
    case False
    with Cons.prems have "\<exists>x\<in>set xs. \<not> (x < length dpdlon \<and> x \<le> length (dpdlon ! x)) \<and> 0 < x"
      by auto
    then show ?thesis using Cons.IH by (simp add: error_eq split: sum.splits)
  qed
qed

subsection \<open>The arrays of the script, on a grid\<close>

lemma length_diff1: "length (diff1 xs) = length xs - 1"
  by (simp add: diff1_def)

lemma nth_diff1: "Suc j < length xs \<Longrightarrow> diff1 xs ! j = xs ! Suc j - xs ! j"
  by (simp add: diff1_def nth_tl)

lemma length_latdata: "length (latdata_of D) = length (lat D)"
  by (simp add: latdata_of_def sliceTupleArray_def makeCoordArr_def)

lemma nth_latdata:
  "i < length (lat D) \<Longrightarrow> latdata_of D ! i = replicate (length (lon D)) (lat D ! i)"
  by (simp add: latdata_of_def sliceTupleArray_def makeCoordArr_def map_replicate_const comp_def)

lemma length_londata: "length (londata_of D) = length (lat D)"
  by (simp add: londata_of_def sliceTupleArray_def makeCoordArr_def)

lemma nth_londata: "i < length (lat D) \<Longrightarrow> londata_of D ! i = lon D"
  by (simp add: londata_of_def sliceTupleArray_def makeCoordArr_def comp_def)

lemma wf_rows: "wf_grid D \<Longrightarrow> i < length (lat D) \<Longrightarrow> length (data D ! i) = length (lon D)"
  by (simp add: wf_grid_def list_all_length)

lemma length_dpdlon: "wf_grid D \<Longrightarrow> length (dpdlon_of D) = length (lat D)"
  by (simp add: dpdlon_of_def np_diff_def wf_grid_def length_londata)

lemma length_dpdlon_row:
  "wf_grid D \<Longrightarrow> i < length (lat D) \<Longrightarrow> length (dpdlon_of D ! i) = length (lon D) - 1"
  by (simp add: dpdlon_of_def np_diff_def wf_grid_def length_londata nth_londata
      length_diff1 list_all_length)

lemma nth_dpdlon:
  "wf_grid D \<Longrightarrow> i < length (lat D) \<Longrightarrow> Suc j < length (lon D) \<Longrightarrow>
   dpdlon_of D ! i ! j =
     np_divide (data D ! i ! Suc j - data D ! i ! j) (lon D ! Suc j - lon D ! j)"
  by (simp add: dpdlon_of_def np_diff_def wf_grid_def length_londata nth_londata
      length_diff1 nth_diff1 list_all_length)

subsection \<open>Stage 1 on a grid\<close>

lemma lon_zero_stationary:
  assumes "wf_grid D" and "i < length (lat D)" and "Suc j < length (lon D)"
  shows "lon_zero (dpdlon_of D) bound i j = lon_stationary D bound i j"
proof -
  have "j < length (lon D) - 1" using assms(3) by arith
  then show ?thesis
    using assms
    by (simp add: lon_zero_def lon_stationary_def length_dpdlon length_dpdlon_row nth_dpdlon
        np_divide_def abs_le_def)
qed

lemma find_lonZeros_returns:
  assumes wf: "wf_grid D" and le: "length (lat D) \<le> length (lon D)"
  shows "find_lonZeros (dpdlon_of D) bound =
           Inr (triangle_scan (length (lat D)) (lon_stationary D bound))"
proof -
  have rows: "\<forall>x\<in>set [0..<length (dpdlon_of D)].
      x < length (dpdlon_of D) \<and> x \<le> length (dpdlon_of D ! x)"
    using wf le by (auto simp add: length_dpdlon length_dpdlon_row)
  have same: "map (Pair x) (filter (lon_zero (dpdlon_of D) bound x) [0..<x]) =
      map (Pair x) (filter (lon_stationary D bound x) [0..<x])"
    if "x \<in> set [0..<length (lat D)]" for x
  proof -
    have "filter (lon_zero (dpdlon_of D) bound x) [0..<x] =
        filter (lon_stationary D bound x) [0..<x]"
      using that wf le by (intro filter_cong refl lon_zero_stationary) auto
    then show ?thesis by simp
  qed
  have "find_lonZeros (dpdlon_of D) bound =
      Inr (concat (map (\<lambda>x. map (Pair x) (filter (lon_zero (dpdlon_of D) bound x) [0..<x]))
        [0..<length (lat D)]))"
    using scan_rows_ok [OF rows, of bound "[]"] wf
    by (simp add: find_lonZeros_def length_dpdlon)
  also have "map (\<lambda>x. map (Pair x) (filter (lon_zero (dpdlon_of D) bound x) [0..<x]))
        [0..<length (lat D)] =
      map (\<lambda>x. map (Pair x) (filter (lon_stationary D bound x) [0..<x])) [0..<length (lat D)]"
    by (rule map_cong [OF refl same])
  finally show ?thesis by (simp add: triangle_scan_def)
qed

lemma find_lonZeros_raises:
  assumes wf: "wf_grid D" and gt: "length (lon D) < length (lat D)"
  shows "find_lonZeros (dpdlon_of D) bound = Inl IndexError"
proof -
  let ?x = "length (lat D) - 1"
  have pos: "0 < length (lon D)" using wf by (simp add: wf_grid_def)
  have x: "?x < length (lat D)" and big: "length (lon D) - 1 < ?x" and "0 < ?x"
    using pos gt by arith+
  then have "?x \<in> set [0..<length (dpdlon_of D)] \<and>
      \<not> (?x < length (dpdlon_of D) \<and> ?x \<le> length (dpdlon_of D ! ?x)) \<and> 0 < ?x"
    using wf by (simp add: length_dpdlon length_dpdlon_row)
  then have "\<exists>x\<in>set [0..<length (dpdlon_of D)].
      \<not> (x < length (dpdlon_of D) \<and> x \<le> length (dpdlon_of D ! x)) \<and> 0 < x"
    by blast
  then show ?thesis
    unfolding find_lonZeros_def by (rule scan_rows_raises)
qed

lemma find_lonZeros_Inr:
  assumes "wf_grid D" and "find_lonZeros (dpdlon_of D) bound = Inr lonZeros"
  shows "length (lat D) \<le> length (lon D)"
    and "lonZeros = triangle_scan (length (lat D)) (lon_stationary D bound)"
proof -
  show le: "length (lat D) \<le> length (lon D)"
  proof (rule ccontr)
    assume "\<not> length (lat D) \<le> length (lon D)"
    then have "find_lonZeros (dpdlon_of D) bound = Inl IndexError"
      using assms(1) by (intro find_lonZeros_raises) auto
    with assms(2) show False by simp
  qed
  show "lonZeros = triangle_scan (length (lat D)) (lon_stationary D bound)"
    using find_lonZeros_returns [OF assms(1) le, of bound] assms(2) by simp
qed

lemma in_triangle_scan:
  "(i, j) \<in> set (triangle_scan H P) \<longleftrightarrow> i < H \<and> j < i \<and> P i j"
  by (auto simp add: triangle_scan_def)

lemma sorted_triangle_row:
  "sorted_wrt row_major (map (Pair x) (filter (P x) [0..<x]))"
proof -
  have "sorted_wrt (<) (filter (P x) [0..<x])"
    by (rule sorted_wrt_filter) simp
  then show ?thesis
    by (simp add: sorted_wrt_map row_major_def)
qed

lemma sorted_triangle_scan: "sorted_wrt row_major (triangle_scan H P)"
proof (induction H)
  case 0
  then show ?case by (simp add: triangle_scan_def)
next
  case (Suc H)
  have split: "triangle_scan (Suc H) P =
      triangle_scan H P @ map (Pair H) (filter (P H) [0..<H])"
    by (simp add: triangle_scan_def)
  have "\<forall>p\<in>set (triangle_scan H P). \<forall>q\<in>set (map (Pair H) (filter (P H) [0..<H])).
      row_major p q"
    by (auto simp add: in_triangle_scan row_major_def)
  with Suc sorted_triangle_row [of H P] show ?case
    by (simp add: split sorted_wrt_append)
qed

subsection \<open>Lookups with offsets\<close>

lemma getitem2_Suc:
  "getitem2 arr (int i + 1) (int j) =
     (if Suc i < length arr \<and> j < length (arr ! Suc i) then Some (arr ! Suc i ! j) else None)"
proof -
  have "int i + 1 = int (Suc i)" by simp
  then show ?thesis by (simp only: getitem2_nat)
qed

lemma getitem2_plus:
  "getitem2 arr (int i + int k) (int j) =
     (if i + k < length arr \<and> j < length (arr ! (i + k)) then Some (arr ! (i + k) ! j)
      else None)"
proof -
  have "int i + int k = int (i + k)" by simp
  then show ?thesis by (simp only: getitem2_nat)
qed

lemma getitem2_minus:
  assumes "k \<le> i"
  shows "getitem2 arr (int i - int k) (int j) =
     (if i - k < length arr \<and> j < length (arr ! (i - k)) then Some (arr ! (i - k) ! j)
      else None)"
proof -
  have "int i - int k = int (i - k)" using assms by simp
  then show ?thesis by (simp only: getitem2_nat)
qed

lemma getitem_wrap:
  assumes "i < k" and "k \<le> length arr + i"
  shows "getitem arr (int i - int k) = Some (arr ! (length arr + i - k))"
proof -
  have neg: "int i - int k < 0" and low: "- int (length arr) \<le> int i - int k"
    using assms by simp_all
  have "int (length arr) + (int i - int k) = int (length arr + i - k)"
    using assms by simp
  then have idx: "nat (int (length arr) + (int i - int k)) = length arr + i - k"
    by (simp only: nat_int)
  from neg have "\<not> (0 \<le> int i - int k \<and> int i - int k < int (length arr))" by simp
  then show ?thesis
    unfolding getitem_def using neg low idx by (simp only: if_False if_True simp_thms)
qed

lemma getitem2_wrap:
  assumes "i < k" and "k \<le> length arr + i"
  shows "getitem2 arr (int i - int k) (int j) =
     (if j < length (arr ! (length arr + i - k)) then Some (arr ! (length arr + i - k) ! j)
      else None)"
  unfolding getitem2_def getitem_wrap [OF assms] by (simp add: getitem_nat)

lemma getitem2_below:
  assumes "length arr + i < k"
  shows "getitem2 arr (int i - int k) (int j) = None"
proof -
  have "int i - int k < - int (length arr)" using assms by simp
  then show ?thesis by (simp add: getitem2_def getitem_def)
qed

subsection \<open>Stage 2 on a grid\<close>

lemma find_latZeros_filter:
  "find_latZeros Udata latdata bound coords =
     (filter (\<lambda>(x, y). case dpdlat_at Udata latdata x y of
                         None \<Rightarrow> False | Some d \<Rightarrow> abs_le d bound) coords,
      map (\<lambda>(x, y). (int x + 1, int y))
        (filter (\<lambda>(x, y). dpdlat_at Udata latdata x y = None) coords))"
  by (induction coords) (auto split: option.splits prod.splits)

lemma dpdlat_at_grid:
  assumes "wf_grid D" and "j < length (lon D)"
  shows "dpdlat_at (data D) (latdata_of D) i j =
           (if Suc i < length (lat D)
            then Some (np_divide (data D ! Suc i ! j - data D ! i ! j)
                         (latdata_of D ! Suc i ! j - latdata_of D ! i ! j))
            else None)"
proof (cases "Suc i < length (lat D)")
  case True
  then have "i < length (lat D)" by simp
  with True assms show ?thesis
    by (simp add: dpdlat_at_def getitem2_Suc getitem2_nat wf_rows length_latdata nth_latdata
        wf_grid_def)
next
  case False
  with assms show ?thesis
    by (simp add: dpdlat_at_def getitem2_Suc wf_grid_def)
qed

lemma retained_iff_lat_stationary:
  assumes "wf_grid D" and "j < length (lon D)"
  shows "(case dpdlat_at (data D) (latdata_of D) i j of
            None \<Rightarrow> False | Some d \<Rightarrow> abs_le d bound) = lat_stationary D bound i j"
  using assms
  by (simp add: dpdlat_at_grid lat_stationary_def np_divide_def abs_le_def)

lemma find_latZeros_grid:
  assumes wf: "wf_grid D" and cols: "\<forall>p\<in>set coords. snd p < length (lon D)"
  shows "find_latZeros (data D) (latdata_of D) bound coords =
           (filter (\<lambda>(i, j). lat_stationary D bound i j) coords,
            map (\<lambda>(i, j). (int i + 1, int j))
              (filter (\<lambda>(i, j). \<not> Suc i < length (lat D)) coords))"
proof -
  have "filter (\<lambda>(x, y). case dpdlat_at (data D) (latdata_of D) x y of
            None \<Rightarrow> False | Some d \<Rightarrow> abs_le d bound) coords =
        filter (\<lambda>(i, j). lat_stationary D bound i j) coords"
    using cols by (intro filter_cong refl) (auto simp add: retained_iff_lat_stationary [OF wf])
  moreover have "filter (\<lambda>(x, y). dpdlat_at (data D) (latdata_of D) x y = None) coords =
        filter (\<lambda>(i, j). \<not> Suc i < length (lat D)) coords"
    using cols by (intro filter_cong refl) (auto simp add: dpdlat_at_grid [OF wf])
  ultimately show ?thesis by (simp add: find_latZeros_filter)
qed

subsection \<open>Stage 3 on a grid\<close>

lemma find_minima_filter:
  "find_minima Udata step coords =
     map to_label (filter (\<lambda>(x, y). is_lower Udata step x y = Some True) coords)"
  by (induction coords) (auto simp add: to_label_def split: option.splits bool.splits)

lemma is_lower_inside:
  assumes "wf_grid D" and "j < length (lon D)" and "step \<le> i" and "i + step < length (lat D)"
  shows "is_lower (data D) step i j = Some True \<longleftrightarrow>
           data D ! i ! j < data D ! (i + step) ! j \<and> data D ! i ! j < data D ! (i - step) ! j"
proof -
  have len: "length (data D) = length (lat D)" using assms(1) by (simp add: wf_grid_def)
  have r: "i - step < length (lat D)" and i: "i < length (lat D)" using assms by arith+
  have dn: "getitem2 (data D) (int i - int step) (int j) = Some (data D ! (i - step) ! j)"
    using assms r len by (simp add: getitem2_minus [OF assms(3)] wf_rows)
  have up: "getitem2 (data D) (int i + int step) (int j) = Some (data D ! (i + step) ! j)"
    using assms len by (simp add: getitem2_plus wf_rows)
  have mid: "getitem2 (data D) (int i) (int j) = Some (data D ! i ! j)"
    using assms i len by (simp add: getitem2_nat wf_rows)
  show ?thesis
    by (simp add: is_lower_def up mid dn)
qed

lemma is_lower_wrapped:
  assumes "wf_grid D" and "j < length (lon D)" and "i < step" and "i + step < length (lat D)"
  shows "is_lower (data D) step i j = Some True \<longleftrightarrow>
           data D ! i ! j < data D ! (i + step) ! j \<and>
           data D ! i ! j < data D ! (length (lat D) + i - step) ! j"
proof -
  have len: "length (data D) = length (lat D)" using assms(1) by (simp add: wf_grid_def)
  have r: "length (data D) + i - step < length (lat D)" and k: "step \<le> length (data D) + i"
    and i: "i < length (lat D)"
    using assms len by arith+
  have dn: "getitem2 (data D) (int i - int step) (int j) =
      Some (data D ! (length (lat D) + i - step) ! j)"
    using assms r len by (simp add: getitem2_wrap [OF assms(3) k] wf_rows)
  have up: "getitem2 (data D) (int i + int step) (int j) = Some (data D ! (i + step) ! j)"
    using assms len by (simp add: getitem2_plus wf_rows)
  have mid: "getitem2 (data D) (int i) (int j) = Some (data D ! i ! j)"
    using assms i len by (simp add: getitem2_nat wf_rows)
  show ?thesis
    by (simp add: is_lower_def up mid dn)
qed

lemma is_lower_outside:
  assumes "wf_grid D" and "length (lat D) \<le> i + step"
  shows "is_lower (data D) step i j = None"
  using assms by (simp add: is_lower_def getitem2_plus wf_grid_def)

subsection \<open>The whole function\<close>

lemma findLocalMinima_with_Inr:
  assumes "find_lonZeros (dpdlon_of (U w)) bound = Inr lonZeros"
  shows "findLocalMinima_with bound step w =
           (Inr (find_minima (data (U w)) step
                  (fst (find_latZeros (data (U w)) (latdata_of (U w)) bound lonZeros))),
            w\<lparr>stdout := stdout w @
                 snd (find_latZeros (data (U w)) (latdata_of (U w)) bound lonZeros)\<rparr>)"
  using assms by (simp add: findLocalMinima_with_def split: prod.splits)

lemma findLocalMinima_with_Inl:
  assumes "find_lonZeros (dpdlon_of (U w)) bound = Inl e"
  shows "findLocalMinima_with bound step w = (Inl e, w)"
  using assms by (simp add: findLocalMinima_with_def)

lemma triangle_scan_in_grid:
  assumes "H \<le> W" and "p \<in> set (triangle_scan H P)"
  shows "fst p < H \<and> snd p < W"
proof -
  obtain i j where p: "p = (i, j)" by (cases p)
  with assms show ?thesis by (auto simp add: in_triangle_scan)
qed

lemma findLocalMinima_with_grid:
  assumes wf: "wf_grid (U w)" and le: "length (lat (U w)) \<le> length (lon (U w))"
  shows "findLocalMinima_with bound step w =
     (Inr (map to_label
            (filter (\<lambda>(i, j). is_lower (data (U w)) step i j = Some True)
              (filter (\<lambda>(i, j). lat_stationary (U w) bound i j)
                (triangle_scan (length (lat (U w))) (lon_stationary (U w) bound))))),
      w\<lparr>stdout := stdout w @
           map (\<lambda>(i, j). (int i + 1, int j))
             (filter (\<lambda>(i, j). \<not> Suc i < length (lat (U w)))
               (triangle_scan (length (lat (U w))) (lon_stationary (U w) bound)))\<rparr>)"
proof -
  let ?cands = "triangle_scan (length (lat (U w))) (lon_stationary (U w) bound)"
  have "\<forall>p\<in>set ?cands. fst p < length (lat (U w)) \<and> snd p < length (lon (U w))"
    using triangle_scan_in_grid [OF le] by blast
  then have cols: "\<forall>p\<in>set ?cands. snd p < length (lon (U w))" by blast
  show ?thesis
    by (simp add: findLocalMinima_with_Inr [OF find_lonZeros_returns [OF wf le]]
        find_latZeros_grid [OF wf cols] find_minima_filter)
qed

lemma to_label_inj: "to_label p = to_label q \<longleftrightarrow> p = q"
  by (cases p; cases q) (simp add: to_label_def)

lemma in_labels:
  "(- int x, int y - 180) \<in> set (map to_label coords) \<longleftrightarrow> (x, y) \<in> set coords"
proof -
  have "(- int x, int y - 180) = to_label (x, y)" by (simp add: to_label_def)
  then show ?thesis by (auto simp add: to_label_inj)
qed

subsection \<open>The example grids, evaluated\<close>

lemmas grid_eval =
  findLocalMinima_def findLocalMinima_with_def dpdlon_of_def find_lonZeros_def np_diff_def
  diff1_def londata_of_def latdata_of_def makeCoordArr_def sliceTupleArray_def getitem2_def
  getitem_def np_divide_def abs_le_def dpdlat_at_def is_lower_def upt_rec

lemma U_quiet: "U (quiet D) = D"
  by (simp add: quiet_def)

lemma wf_valley: "wf_grid valley"
  by (simp add: wf_grid_def valley_def)

lemma lonZeros_valley:
  "find_lonZeros (dpdlon_of valley) (2 / 100) =
     Inr [(1, 0), (2, 0), (2, 1), (3, 0), (3, 1), (3, 2)]"
  by (simp add: valley_def grid_eval)

lemma latZeros_valley:
  "find_latZeros (data valley) (latdata_of valley) (2 / 100)
     [(1, 0), (2, 0), (2, 1), (3, 0), (3, 1), (3, 2)] = ([(1, 0)], [(4, 0), (4, 1), (4, 2)])"
  by (simp add: valley_def grid_eval)

subsection \<open>The paraboloid under the constants of the source\<close>





subsection \<open>Constant fields and increasing fields\<close>

text \<open>
  A constant field has no cell that is lower than a neighbour, so on a grid where stage 1
  returns (no more rows than columns) the result is empty.
\<close>

lemma getitem_in_set: "getitem xs i = Some v \<Longrightarrow> v \<in> set xs"
  by (auto simp add: getitem_def split: if_splits)

lemma getitem2_constant:
  assumes "constant_field c F" and "getitem2 F a b = Some v"
  shows "v = c"
proof -
  from assms(2) obtain row where "getitem F a = Some row" and "getitem row b = Some v"
    by (auto simp add: getitem2_def split: option.splits)
  then have "row \<in> set F" and "v \<in> set row" by (auto dest: getitem_in_set)
  with assms(1) show ?thesis by (auto simp add: constant_field_def list_all_iff)
qed

lemma constant_field_not_lower:
  assumes "constant_field c F"
  shows "is_lower F step x y \<noteq> Some True"
proof
  assume low: "is_lower F step x y = Some True"
  then obtain up mid where up: "getitem2 F (int x + int step) (int y) = Some up"
    and mid: "getitem2 F (int x) (int y) = Some mid" and "up > mid"
    by (auto simp add: is_lower_def split: option.splits if_splits)
  with assms getitem2_constant [OF assms up] getitem2_constant [OF assms mid]
  show False by simp
qed

lemma constant_field_no_minima:
  assumes "wf_grid (U w)" and "length (lat (U w)) \<le> length (lon (U w))"
    and "constant_field c (data (U w))"
  shows "fst (findLocalMinima_with bound step w) = Inr []"
proof -
  have "filter (\<lambda>(x, y). is_lower (data (U w)) step x y = Some True) coords = []" for coords
    using constant_field_not_lower [OF assms(3)] by (auto simp add: filter_empty_conv)
  then show ?thesis
    by (simp add: findLocalMinima_with_Inr [OF find_lonZeros_returns [OF assms(1,2)]]
        find_minima_filter)
qed

text \<open>
  In a field that increases along both axes no cell is lower than the cell \<open>step\<close> rows
  before it. What such a field can still yield comes from the rows \<open>i < step\<close>, whose
  lower neighbour is read from the other end of the grid.
\<close>

lemma increasing_rows:
  assumes "increasing_along_both F" and "a < b" and "b < length F" and "j < length (F ! a)"
  shows "F ! a ! j < F ! b ! j"
proof -
  from assms have "list_all2 (<) (F ! a) (F ! b)"
    by (simp add: increasing_along_both_def sorted_wrt_iff_nth_less)
  then show ?thesis using assms(4) by (rule list_all2_nthD)
qed

lemma increasing_field_only_wrapped:
  assumes wf: "wf_grid (U w)" and le: "length (lat (U w)) \<le> length (lon (U w))"
    and inc: "increasing_along_both (data (U w))"
    and out: "fst (findLocalMinima_with bound step w) = Inr out"
    and p: "p \<in> set out"
  shows "\<exists>i j. p = to_label (i, j) \<and> i < step"
proof -
  let ?H = "length (lat (U w))"
  from out p obtain i j where pl: "p = to_label (i, j)"
    and scan: "(i, j) \<in> set (triangle_scan ?H (lon_stationary (U w) bound))"
    and sm: "is_lower (data (U w)) step i j = Some True"
    by (auto simp add: findLocalMinima_with_grid [OF wf le])
  from scan le have i: "i < ?H" and j: "j < length (lon (U w))"
    by (simp_all add: in_triangle_scan)
  have len: "length (data (U w)) = ?H" using wf by (simp add: wf_grid_def)
  have "i < step"
  proof (rule ccontr)
    assume "\<not> i < step"
    then have ge: "step \<le> i" by simp
    have up: "i + step < ?H"
      using sm is_lower_outside [OF wf, of i step j] by (cases "i + step < ?H") simp_all
    from sm have lower: "data (U w) ! i ! j < data (U w) ! (i - step) ! j"
      by (simp add: is_lower_inside [OF wf j ge up])
    show False
    proof (cases "step = 0")
      case True
      with lower show False by simp
    next
      case False
      with ge have "i - step < i" by simp
      moreover have "j < length (data (U w) ! (i - step))"
        using i j by (simp add: wf_rows [OF wf])
      ultimately have "data (U w) ! (i - step) ! j < data (U w) ! i ! j"
        using i len by (intro increasing_rows [OF inc]) simp_all
      with lower show False by simp
    qed
  qed
  with pl show ?thesis by blast
qed

section \<open>The claims\<close>

subsection \<open>Stage 1 does not reach the diagonal\<close>

text \<open>
  Claim C1 says that stage 1 scans row \<open>i\<close> over the columns \<open>0..i\<close> inclusive and
  produces every cell \<open>(i, j)\<close> with \<open>j\<close> in \<open>0..i\<close> whose derivative along the
  longitude is within the bound. The loop \<^verbatim>\<open>for y in range(x)\<close> stops at column
  \<open>x - 1\<close>. On the constant 3 by 3 field, with the bound 0.02 of the source, the cells
  \<open>(0, 0)\<close> and \<open>(1, 1)\<close> have the derivative 0 and are not produced: the candidates are
  \<open>(1, 0)\<close>, \<open>(2, 0)\<close> and \<open>(2, 1)\<close>.
\<close>

theorem stage1_skips_diagonal:
  "find_lonZeros (dpdlon_of flat_three) (2 / 100) = Inr [(1, 0), (2, 0), (2, 1)] \<and>
   lon_stationary flat_three (2 / 100) 0 0 \<and>
   (0, 0) \<notin> set [(1, 0), (2, 0), (2 :: nat, 1 :: nat)] \<and>
   lon_stationary flat_three (2 / 100) 1 1 \<and>
   (1, 1) \<notin> set [(1, 0), (2, 0), (2 :: nat, 1 :: nat)]"
  by (simp add: flat_three_def lon_stationary_def grid_eval)

subsection \<open>A candidate whose lower neighbour is out of the grid\<close>

text \<open>
  Claim C2 says that a retained candidate is left out of the output when \<open>i + step\<close> or
  \<open>i - step\<close> is not a row of the grid. The source does so for \<open>i + step\<close>, where the
  lookup raises; for \<open>i - step < 0\<close> it does not. On the grid \<open>valley\<close> (four rows),
  with the bound 0.02 and the step 2 of the source, the candidate \<open>(1, 0)\<close> is retained,
  \<open>1 - 2\<close> is negative, and the candidate is returned, as \<open>(-1, -180)\<close>.
\<close>

theorem wrapped_candidate_not_excluded:
  "(1, 0) \<in> set (fst (find_latZeros (data valley) (latdata_of valley) (2 / 100)
      [(1, 0), (2, 0), (2, 1), (3, 0), (3, 1), (3, 2)])) \<and>
   find_lonZeros (dpdlon_of valley) (2 / 100) =
     Inr [(1, 0), (2, 0), (2, 1), (3, 0), (3, 1), (3, 2)] \<and>
   \<not> 0 \<le> int 1 - int 2 \<and>
   fst (findLocalMinima (quiet valley)) = Inr [to_label (1, 0)] \<and>
   to_label (1, 0) = (- 1, - 180)"
  by (simp add: quiet_def valley_def to_label_def grid_eval)

subsection \<open>A row index below the step reads a row from the other end of the grid\<close>

text \<open>
  Claim C3, as corrected. For a retained candidate \<open>(x, y)\<close> with \<open>x < step\<close> the lookup
  \<^verbatim>\<open>U.data[x-step][y]\<close> has a negative row index, which numpy counts from the end: for
  every step up to \<open>H + x\<close> it yields \<open>F[H + x - step][y]\<close> and raises nothing. The
  candidate is emitted, as \<open>(-x, y - 180)\<close>, exactly when row \<open>x + step\<close> is a row of the
  grid, \<open>F[x+step][y] > F[x][y]\<close> and \<open>F[H + x - step][y] > F[x][y]\<close>; when
  \<open>x + step \<ge> H\<close> the lookup of that row raises and the handler skips the candidate.
\<close>

theorem wrapped_row_is_compared:
  assumes wf: "wf_grid (U w)"
    and s1: "find_lonZeros (dpdlon_of (U w)) bound = Inr lonZeros"
    and kept: "(x, y) \<in> set (fst (find_latZeros (data (U w)) (latdata_of (U w)) bound lonZeros))"
    and low: "x < step"
  shows "\<exists>out. fst (findLocalMinima_with bound step w) = Inr out \<and>
           ((- int x, int y - 180) \<in> set out \<longleftrightarrow>
              x + step < length (lat (U w)) \<and>
              data (U w) ! (x + step) ! y > data (U w) ! x ! y \<and>
              data (U w) ! (length (lat (U w)) + x - step) ! y > data (U w) ! x ! y) \<and>
           (step \<le> length (lat (U w)) + x \<longrightarrow>
              getitem2 (data (U w)) (int x - int step) (int y) =
                Some (data (U w) ! (length (lat (U w)) + x - step) ! y))"
proof -
  let ?D = "U w" and ?H = "length (lat (U w))"
  let ?kept = "fst (find_latZeros (data ?D) (latdata_of ?D) bound lonZeros)"
  have le: "?H \<le> length (lon ?D)"
    and scan: "lonZeros = triangle_scan ?H (lon_stationary ?D bound)"
    using find_lonZeros_Inr [OF wf s1] by blast+
  have keq: "?kept = filter (\<lambda>(i, j). lat_stationary ?D bound i j) lonZeros"
    using find_lonZeros_Inr [OF wf s1] triangle_scan_in_grid [OF le]
    by (simp add: find_latZeros_grid [OF wf])
  have "set ?kept \<subseteq> set (triangle_scan ?H (lon_stationary ?D bound))"
    using keq scan by auto
  then have cells: "\<forall>p\<in>set ?kept. fst p < ?H \<and> snd p < length (lon ?D)"
    using triangle_scan_in_grid [OF le] by blast
  with kept have x: "x < ?H" and y: "y < length (lon ?D)" by auto
  have len: "length (data ?D) = ?H" using wf by (simp add: wf_grid_def)
  have out: "fst (findLocalMinima_with bound step w) =
      Inr (map to_label
        (filter (\<lambda>(i, j). is_lower (data ?D) step i j = Some True) ?kept))"
    by (simp add: findLocalMinima_with_Inr [OF s1] find_minima_filter)
  have emitted: "(- int x, int y - 180) \<in>
        set (map to_label
          (filter (\<lambda>(i, j). is_lower (data ?D) step i j = Some True) ?kept)) \<longleftrightarrow>
      is_lower (data ?D) step x y = Some True"
    unfolding in_labels using kept by simp
  have cmp: "is_lower (data ?D) step x y = Some True \<longleftrightarrow>
      x + step < ?H \<and> data ?D ! (x + step) ! y > data ?D ! x ! y \<and>
      data ?D ! (?H + x - step) ! y > data ?D ! x ! y"
  proof (cases "x + step < ?H")
    case True
    then show ?thesis using is_lower_wrapped [OF wf y low True] by simp
  next
    case False
    then show ?thesis using is_lower_outside [OF wf, of x step y] by simp
  qed
  have look: "getitem2 (data ?D) (int x - int step) (int y) =
      Some (data ?D ! (?H + x - step) ! y)" if k: "step \<le> ?H + x"
  proof -
    have k': "step \<le> length (data ?D) + x" using k len by simp
    have "?H + x - step < ?H" using low k by arith
    then show ?thesis
      using y len by (simp add: getitem2_wrap [OF low k'] wf_rows [OF wf])
  qed
  show ?thesis
    using out emitted cmp look by simp
qed

theorem wrapped_row_is_compared_witness:
  "wf_grid (U (quiet valley)) \<and>
   find_lonZeros (dpdlon_of (U (quiet valley))) (2 / 100) =
     Inr [(1, 0), (2, 0), (2, 1), (3, 0), (3, 1), (3, 2)] \<and>
   (1, 0) \<in> set (fst (find_latZeros (data (U (quiet valley)))
       (latdata_of (U (quiet valley))) (2 / 100)
       [(1, 0), (2, 0), (2, 1), (3, 0), (3, 1), (3, 2)])) \<and>
   (1 :: nat) < 2 \<and>
   (2 :: nat) \<le> length (lat (U (quiet valley))) + 1 \<and>
   (\<exists>out. fst (findLocalMinima_with (2 / 100) 2 (quiet valley)) = Inr out \<and>
      ((- int 1, int 0 - 180) \<in> set out \<longleftrightarrow>
         1 + 2 < length (lat (U (quiet valley))) \<and>
         data (U (quiet valley)) ! (1 + 2) ! 0 > data (U (quiet valley)) ! 1 ! 0 \<and>
         data (U (quiet valley)) ! (length (lat (U (quiet valley))) + 1 - 2) ! 0 >
           data (U (quiet valley)) ! 1 ! 0)) \<and>
   getitem2 (data (U (quiet valley))) (int 1 - int 2) (int 0) =
     Some (data (U (quiet valley)) ! (length (lat (U (quiet valley))) + 1 - 2) ! 0) \<and>
   fst (findLocalMinima_with (2 / 100) 2 (quiet valley)) = Inr [(- 1, - 180)]"
proof -
  let ?w = "quiet valley"
  have wf: "wf_grid (U ?w)" using wf_valley by (simp add: U_quiet)
  have s1: "find_lonZeros (dpdlon_of (U ?w)) (2 / 100) =
      Inr [(1, 0), (2, 0), (2, 1), (3, 0), (3, 1), (3, 2)]"
    using lonZeros_valley by (simp add: U_quiet)
  have kept: "(1, 0) \<in> set (fst (find_latZeros (data (U ?w)) (latdata_of (U ?w)) (2 / 100)
      [(1, 0), (2, 0), (2, 1), (3, 0), (3, 1), (3, 2)]))"
    using latZeros_valley by (simp add: U_quiet)
  have low: "(1 :: nat) < 2" by simp
  have k: "(2 :: nat) \<le> length (lat (U ?w)) + 1" by (simp add: U_quiet valley_def)
  have run: "fst (findLocalMinima_with (2 / 100) 2 ?w) = Inr [(- 1, - 180)]"
    by (simp add: quiet_def valley_def grid_eval)
  note inst = wrapped_row_is_compared [OF wf s1 kept low]
  from inst have emitted: "\<exists>out. fst (findLocalMinima_with (2 / 100) 2 ?w) = Inr out \<and>
      ((- int 1, int 0 - 180) \<in> set out \<longleftrightarrow>
         1 + 2 < length (lat (U ?w)) \<and>
         data (U ?w) ! (1 + 2) ! 0 > data (U ?w) ! 1 ! 0 \<and>
         data (U ?w) ! (length (lat (U ?w)) + 1 - 2) ! 0 > data (U ?w) ! 1 ! 0)"
    by blast
  from inst k have look: "getitem2 (data (U ?w)) (int 1 - int 2) (int 0) =
      Some (data (U ?w) ! (length (lat (U ?w)) + 1 - 2) ! 0)"
    by blast
  from wf s1 kept low k emitted look run show ?thesis by (intro conjI)
qed

text \<open>
  Claim C3 as stated has no candidate with \<open>x < step\<close> failing or skipped. On the grid
  \<open>short_valley\<close> (three rows), with the bound 0.02 and the step 2 of the source, the
  candidate \<open>(1, 0)\<close> is retained and \<open>1 < 2\<close>; the row \<open>3 + 1 - 2\<close> from the other end
  is higher, but \<^verbatim>\<open>U.data[1+2]\<close> raises first, and the result is empty.
\<close>

theorem candidate_below_step_skipped:
  "find_lonZeros (dpdlon_of short_valley) (2 / 100) = Inr [(1, 0), (2, 0), (2, 1)] \<and>
   (1, 0) \<in> set (fst (find_latZeros (data short_valley) (latdata_of short_valley) (2 / 100)
      [(1, 0), (2, 0), (2, 1)])) \<and>
   (1 :: nat) < 2 \<and>
   getitem2 (data short_valley) (int 1 + int 2) (int 0) = None \<and>
   is_lower (data short_valley) 2 1 0 = None \<and>
   data short_valley ! (3 + 1 - 2) ! 0 > data short_valley ! 1 ! 0 \<and>
   fst (findLocalMinima (quiet short_valley)) = Inr []"
  by (simp add: quiet_def short_valley_def grid_eval)

subsection \<open>The paraboloid on the 5 by 5 grid\<close>




text \<open>
  Nor does the body return the centre when 0.5 and 1 stand in the place of its two
  constants: over the first coordinates the result is empty, over the second it is the
  cell \<open>(2, 1)\<close>.
\<close>

lemma paraboloid_body_with_other_constants:
  "fst (findLocalMinima_with (1 / 2) 1 (quiet (paraboloid unit_coords unit_coords))) = Inr [] \<and>
   fst (findLocalMinima_with (1 / 2) 1 (quiet (paraboloid coarse_coords coarse_coords))) =
     Inr [(- 2, - 179)]"
  by (simp add: quiet_def paraboloid_def unit_coords_def coarse_coords_def grid_eval)

subsection \<open>A constant field\<close>

text \<open>
  Claim C5 says that a constant field yields the empty sequence. On the constant field of
  three rows and two columns, over increasing coordinates, the function returns nothing:
  row 2 is scanned over the columns 0 and 1, the derivative along the longitude has the
  single column 0, and the lookup of column 1 raises \<^verbatim>\<open>IndexError\<close> in stage 1, where
  no handler is.
\<close>

theorem constant_field_raises:
  "constant_field 1 (data flat_tall) \<and> wf_grid flat_tall \<and>
   sorted_wrt (<) (lat flat_tall) \<and> sorted_wrt (<) (lon flat_tall) \<and>
   fst (findLocalMinima (quiet flat_tall)) = Inl IndexError"
  by (simp add: quiet_def flat_tall_def constant_field_def wf_grid_def grid_eval)

subsection \<open>A field that increases along both axes\<close>

text \<open>
  Claim C6 says that a field increasing along both axes yields the empty sequence. The
  field \<open>(i + j) / 100\<close> on the 5 by 5 grid increases strictly along both axes; with the
  bound 0.02 and the step 2 of the source the result is \<open>[(-1, -180)]\<close>: for the cell
  \<open>(1, 0)\<close> the row \<open>1 - 2\<close> is read as row 4.
\<close>

theorem increasing_field_has_output:
  "increasing_along_both (data slope) \<and> wf_grid slope \<and>
   fst (findLocalMinima (quiet slope)) = Inr [(- 1, - 180)]"
  by (simp add: quiet_def slope_def increasing_along_both_def wf_grid_def grid_eval)

subsection \<open>The output and the strict minima of the grid\<close>

text \<open>
  The output is the list of the retained candidates that pass the comparison of the
  source, each as \<open>(-i, j - 180)\<close>, once, in the order of the retained list, which is
  strictly row-major. For a candidate with both neighbours inside the grid
  (\<open>step \<le> i\<close> and \<open>i + step < H\<close>) passing the comparison is \<open>F[i][j] < F[i+step][j]\<close>
  and \<open>F[i][j] < F[i-step][j]\<close>.
\<close>

lemma retained_minima_in_order:
  assumes wf: "wf_grid (U w)"
    and s1: "find_lonZeros (dpdlon_of (U w)) bound = Inr lonZeros"
    and s2: "arraylocations = fst (find_latZeros (data (U w)) (latdata_of (U w)) bound lonZeros)"
  shows "fst (findLocalMinima_with bound step w) =
           Inr (map to_label
                 (filter (\<lambda>(i, j). is_lower (data (U w)) step i j = Some True)
                   arraylocations)) \<and>
         sorted_wrt row_major arraylocations \<and>
         (\<forall>(i, j) \<in> set arraylocations.
            step \<le> i \<and> i + step < length (lat (U w)) \<longrightarrow>
              (is_lower (data (U w)) step i j = Some True \<longleftrightarrow>
                 data (U w) ! i ! j < data (U w) ! (i + step) ! j \<and>
                 data (U w) ! i ! j < data (U w) ! (i - step) ! j))"
proof -
  let ?D = "U w" and ?H = "length (lat (U w))"
  have le: "?H \<le> length (lon ?D)"
    and scan: "lonZeros = triangle_scan ?H (lon_stationary ?D bound)"
    using find_lonZeros_Inr [OF wf s1] by blast+
  have keq: "arraylocations = filter (\<lambda>(i, j). lat_stationary ?D bound i j) lonZeros"
    using find_lonZeros_Inr [OF wf s1] triangle_scan_in_grid [OF le]
    by (simp add: s2 find_latZeros_grid [OF wf])
  have "set arraylocations \<subseteq> set (triangle_scan ?H (lon_stationary ?D bound))"
    using keq scan by auto
  then have cells: "\<forall>p\<in>set arraylocations. fst p < ?H \<and> snd p < length (lon ?D)"
    using triangle_scan_in_grid [OF le] by blast
  have out: "fst (findLocalMinima_with bound step w) =
      Inr (map to_label
        (filter (\<lambda>(i, j). is_lower (data ?D) step i j = Some True) arraylocations))"
    unfolding s2 by (simp add: findLocalMinima_with_Inr [OF s1] find_minima_filter)
  have order: "sorted_wrt row_major arraylocations"
    unfolding keq scan by (intro sorted_wrt_filter sorted_triangle_scan)
  have inside: "\<forall>(i, j) \<in> set arraylocations.
      step \<le> i \<and> i + step < ?H \<longrightarrow>
        (is_lower (data ?D) step i j = Some True \<longleftrightarrow>
           data ?D ! i ! j < data ?D ! (i + step) ! j \<and>
           data ?D ! i ! j < data ?D ! (i - step) ! j)"
    using cells is_lower_inside [OF wf] by fastforce
  from out order inside show ?thesis by (intro conjI)
qed

text \<open>
  Claim C7 says that every element of the output is \<open>(-i, j - 180)\<close> for a retained
  candidate with \<open>F[i][j] < F[i+step][j]\<close> and \<open>F[i][j] < F[i-step][j]\<close>. On the grid
  \<open>ramp\<close> (four rows), with the bound 0.02 and the step 2 of the source, the one
  retained candidate is \<open>(1, 0)\<close> and the result is \<open>[(-1, -180)]\<close>. The grid has no row
  \<open>1 - 2\<close>, and the cell is no minimum along its column, since row 0 is lower: the
  source compared it with row 3, read through the index \<open>-1\<close>.
\<close>

theorem returned_cell_is_no_strict_minimum:
  "find_lonZeros (dpdlon_of ramp) (2 / 100) =
     Inr [(1, 0), (2, 0), (2, 1), (3, 0), (3, 1), (3, 2)] \<and>
   fst (find_latZeros (data ramp) (latdata_of ramp) (2 / 100)
      [(1, 0), (2, 0), (2, 1), (3, 0), (3, 1), (3, 2)]) = [(1, 0)] \<and>
   fst (findLocalMinima (quiet ramp)) = Inr [to_label (1, 0)] \<and>
   to_label (1, 0) = (- 1, - 180) \<and>
   \<not> (2 :: nat) \<le> 1 \<and>
   getitem2 (data ramp) (int 1 - int 2) (int 0) = Some (data ramp ! 3 ! 0) \<and>
   data ramp ! 0 ! 0 < data ramp ! 1 ! 0"
  by (simp add: quiet_def ramp_def to_label_def grid_eval)

subsection \<open>Stage 2 keeps the candidates that are stationary along the latitude\<close>

text \<open>
  Claim C8. When stage 1 has returned its candidates, stage 2 retains a candidate
  \<open>(i, j)\<close> if and only if row \<open>i + 1\<close> exists and the forward difference
  \<open>(F[i+1][j] - F[i][j]) / (latdata[i+1][j] - latdata[i][j])\<close>, with the latitudes taken
  from the two-dimensional coordinate grid, is at most the bound in absolute value. A
  candidate of the last row, whose lookup raises, is dropped and the loop goes on: the
  retained list is the filter of the whole candidate list, in its order.
\<close>

theorem stage2_retains_lat_stationary:
  assumes "wf_grid D" and "find_lonZeros (dpdlon_of D) bound = Inr lonZeros"
  shows "fst (find_latZeros (data D) (latdata_of D) bound lonZeros) =
           filter (\<lambda>(i, j). lat_stationary D bound i j) lonZeros"
proof -
  have le: "length (lat D) \<le> length (lon D)"
    and scan: "lonZeros = triangle_scan (length (lat D)) (lon_stationary D bound)"
    using find_lonZeros_Inr [OF assms] by blast+
  have "\<forall>p\<in>set lonZeros. snd p < length (lon D)"
    unfolding scan using triangle_scan_in_grid [OF le] by blast
  then show ?thesis
    by (simp add: find_latZeros_grid [OF assms(1)])
qed

theorem stage2_retains_lat_stationary_witness:
  "wf_grid valley \<and>
   find_lonZeros (dpdlon_of valley) (2 / 100) =
     Inr [(1, 0), (2, 0), (2, 1), (3, 0), (3, 1), (3, 2)] \<and>
   fst (find_latZeros (data valley) (latdata_of valley) (2 / 100)
          [(1, 0), (2, 0), (2, 1), (3, 0), (3, 1), (3, 2)]) =
     filter (\<lambda>(i, j). lat_stationary valley (2 / 100) i j)
       [(1, 0), (2, 0), (2, 1), (3, 0), (3, 1), (3, 2)] \<and>
   filter (\<lambda>(i, j). lat_stationary valley (2 / 100) i j)
       [(1, 0), (2, 0), (2, 1), (3, 0), (3, 1), (3, 2)] = [(1, 0)]"
proof -
  have kept: "filter (\<lambda>(i, j). lat_stationary valley (2 / 100) i j)
       [(1, 0), (2, 0), (2, 1), (3, 0), (3, 1), (3, 2)] = [(1, 0)]"
    by (simp add: lat_stationary_def valley_def latdata_of_def makeCoordArr_def
        sliceTupleArray_def)
  from stage2_retains_lat_stationary [OF wf_valley lonZeros_valley] wf_valley lonZeros_valley kept
  show ?thesis by (intro conjI)
qed

subsection \<open>The result depends on the data set alone\<close>

text \<open>
  Claim C9. The function is deterministic and reads no hidden state: two calls with the
  same bound and step, in two states that hold the same data set \<open>U\<close> and differ in
  anything else (here, in what has been printed so far), return the same sequence.
\<close>

theorem findLocalMinima_deterministic:
  assumes "U w1 = U w2"
  shows "fst (findLocalMinima_with bound step w1) = fst (findLocalMinima_with bound step w2)"
  using assms by (simp add: findLocalMinima_with_def split: sum.splits prod.splits)

theorem findLocalMinima_deterministic_witness:
  "U \<lparr>U = valley, stdout = []\<rparr> = U \<lparr>U = valley, stdout = [(4, 0)]\<rparr> \<and>
   fst (findLocalMinima_with (2 / 100) 2 \<lparr>U = valley, stdout = []\<rparr>) =
   fst (findLocalMinima_with (2 / 100) 2 \<lparr>U = valley, stdout = [(4, 0)]\<rparr>)"
proof -
  have same: "U \<lparr>U = valley, stdout = []\<rparr> = U \<lparr>U = valley, stdout = [(4, 0)]\<rparr>"
    by simp
  from same findLocalMinima_deterministic [OF same, of "2 / 100" 2] show ?thesis
    by (intro conjI)
qed

subsection \<open>What a call changes\<close>

text \<open>
  In the state of the model, the data set and the standard output, a call leaves the
  data set as it was and appends to the output: when stage 1 has returned, the pair
  \<open>(i + 1, j)\<close> for each candidate \<open>(i, j)\<close> of the last row, which is what the handler
  of stage 2 prints; when stage 1 raises, nothing. (The warning of numpy for a zero
  divisor goes to the standard error, which the state does not hold; no divisor is zero
  when adjacent coordinates differ.)
\<close>

lemma findLocalMinima_frame:
  assumes wf: "wf_grid (U w)"
  shows "U (snd (findLocalMinima_with bound step w)) = U w \<and>
         (\<exists>printed. snd (findLocalMinima_with bound step w) =
                      w\<lparr>stdout := stdout w @ printed\<rparr> \<and>
                    (case find_lonZeros (dpdlon_of (U w)) bound of
                       Inl e \<Rightarrow> printed = []
                     | Inr lonZeros \<Rightarrow>
                         printed =
                           map (\<lambda>(i, j). (int i + 1, int j))
                             (filter (\<lambda>(i, j). Suc i = length (lat (U w))) lonZeros)))"
proof (cases "length (lat (U w)) \<le> length (lon (U w))")
  case True
  let ?scan = "triangle_scan (length (lat (U w))) (lon_stationary (U w) bound)"
  let ?printed = "map (\<lambda>(i, j). (int i + 1, int j))
      (filter (\<lambda>(i, j). Suc i = length (lat (U w))) ?scan)"
  have s1: "find_lonZeros (dpdlon_of (U w)) bound = Inr ?scan"
    by (rule find_lonZeros_returns [OF wf True])
  have "filter (\<lambda>(i, j). \<not> Suc i < length (lat (U w))) ?scan =
      filter (\<lambda>(i, j). Suc i = length (lat (U w))) ?scan"
    by (intro filter_cong refl) (auto simp add: in_triangle_scan)
  then have run: "snd (findLocalMinima_with bound step w) = w\<lparr>stdout := stdout w @ ?printed\<rparr>"
    by (simp add: findLocalMinima_with_grid [OF wf True])
  have same: "U (snd (findLocalMinima_with bound step w)) = U w"
    unfolding run by simp
  have what: "(case find_lonZeros (dpdlon_of (U w)) bound of
        Inl e \<Rightarrow> ?printed = []
      | Inr lonZeros \<Rightarrow>
          ?printed = map (\<lambda>(i, j). (int i + 1, int j))
            (filter (\<lambda>(i, j). Suc i = length (lat (U w))) lonZeros))"
    by (simp add: s1)
  have "\<exists>printed. snd (findLocalMinima_with bound step w) =
        w\<lparr>stdout := stdout w @ printed\<rparr> \<and>
      (case find_lonZeros (dpdlon_of (U w)) bound of
         Inl e \<Rightarrow> printed = []
       | Inr lonZeros \<Rightarrow>
           printed = map (\<lambda>(i, j). (int i + 1, int j))
             (filter (\<lambda>(i, j). Suc i = length (lat (U w))) lonZeros))"
    by (rule exI [of _ ?printed]) (intro conjI run what)
  with same show ?thesis by (rule conjI)
next
  case False
  then have s1: "find_lonZeros (dpdlon_of (U w)) bound = Inl IndexError"
    using wf by (intro find_lonZeros_raises) auto
  then have run: "snd (findLocalMinima_with bound step w) = w\<lparr>stdout := stdout w @ []\<rparr>"
    by (simp add: findLocalMinima_with_Inl)
  have same: "U (snd (findLocalMinima_with bound step w)) = U w"
    unfolding run by simp
  have what: "(case find_lonZeros (dpdlon_of (U w)) bound of
        Inl e \<Rightarrow> ([] :: (int \<times> int) list) = []
      | Inr lonZeros \<Rightarrow>
          [] = map (\<lambda>(i, j). (int i + 1, int j))
            (filter (\<lambda>(i, j). Suc i = length (lat (U w))) lonZeros))"
    by (simp add: s1)
  have "\<exists>printed. snd (findLocalMinima_with bound step w) =
        w\<lparr>stdout := stdout w @ printed\<rparr> \<and>
      (case find_lonZeros (dpdlon_of (U w)) bound of
         Inl e \<Rightarrow> printed = []
       | Inr lonZeros \<Rightarrow>
           printed = map (\<lambda>(i, j). (int i + 1, int j))
             (filter (\<lambda>(i, j). Suc i = length (lat (U w))) lonZeros))"
    by (rule exI [of _ "[]"]) (intro conjI run what)
  with same show ?thesis by (rule conjI)
qed

text \<open>
  Claim C10 says that a call has no effect besides the returned sequence. On the
  constant 2 by 2 field, over the coordinates 0 and 1, the candidate \<open>(1, 0)\<close> is in the
  last row, the lookup of row 2 raises, and the handler of stage 2 prints \<open>(2, 0)\<close>; the
  handler of stage 3 skips in silence.
\<close>

theorem findLocalMinima_prints:
  "stdout (snd (findLocalMinima (quiet flat_square))) = [(2, 0)] \<and>
   stdout (quiet flat_square) = []"
  by (simp add: quiet_def flat_square_def grid_eval)

end
